theory Spec2Isabelle
  imports Main "HOL-Library.Word" "HOL-Library.Char_ord" "HOL-Library.List_Lexorder"
    "HOL-Library.Multiset"
begin

section \<open>JavaScript values\<close>

text \<open>
  The plugin is dynamically typed JavaScript. Option values, resolved configurations and
  ignore patterns are arbitrary JavaScript values, so they are modelled by one datatype.
  An object is the list of its own enumerable properties in insertion order (the order
  \<open>Object.keys\<close> reports); a well-formed object has pairwise distinct keys.
  Numbers are the integers (counts, line numbers, numeric options); fractional and
  non-finite doubles are outside the model. A function value carries what
  \<open>Function.prototype.toString\<close> would print for it.
\<close>

datatype generator = qunit | mocha

datatype fn =
    UserFn string
  | Generator generator
  | Native string

datatype jsval =
    JUndefined
  | JNull
  | JBool bool
  | JNum int
  | JStr string
  | JFun fn
  | JArr "jsval list"
  | JObj "(string \<times> jsval) list"

datatype error =
    TypeError string
  | ReferenceError string
  | Error string

definition apos :: string where
  "apos = [CHR 0x27]"

definition dquote :: string where
  "dquote = [CHR 0x22]"

definition bslash :: string where
  "bslash = [CHR 0x5C]"

definition nl :: string where
  "nl = [CHR 0x0A]"

fun typeof :: "jsval \<Rightarrow> string" where
  "typeof JUndefined = ''undefined''"
| "typeof JNull = ''object''"
| "typeof (JBool b) = ''boolean''"
| "typeof (JNum n) = ''number''"
| "typeof (JStr s) = ''string''"
| "typeof (JFun f) = ''function''"
| "typeof (JArr xs) = ''object''"
| "typeof (JObj kvs) = ''object''"

fun truthy :: "jsval \<Rightarrow> bool" where
  "truthy JUndefined = False"
| "truthy JNull = False"
| "truthy (JBool b) = b"
| "truthy (JNum n) = (n \<noteq> 0)"
| "truthy (JStr s) = (s \<noteq> [])"
| "truthy (JFun f) = True"
| "truthy (JArr xs) = True"
| "truthy (JObj kvs) = True"

text \<open>\<open>Array.prototype.join\<close>: the elements separated by \<open>sep\<close>.\<close>

fun join :: "string \<Rightarrow> string list \<Rightarrow> string" where
  "join sep [] = []"
| "join sep [x] = x"
| "join sep (x # y # zs) = x @ sep @ join sep (y # zs)"

subsection \<open>Numbers and strings as text\<close>

definition digit_char :: "nat \<Rightarrow> char" where
  "digit_char d = char_of (48 + d)"

function show_nat :: "nat \<Rightarrow> string" where
  "show_nat n = (if n < 10 then [digit_char n] else show_nat (n div 10) @ [digit_char (n mod 10)])"
  by pat_completeness auto
termination
  by (relation "measure id") auto

declare show_nat.simps [simp del]

definition show_int :: "int \<Rightarrow> string" where
  "show_int i = (if i < 0 then ''-'' @ show_nat (nat (- i)) else show_nat (nat i))"

text \<open>The text that the source of a function value prints as.\<close>

definition generator_source :: string where
  "generator_source =
     ''function (relativePath, errors, results) {'' @ nl @
     ''    var passed = !results.errorCount || results.errorCount.length === 0;'' @ nl @
     nl @
     ''    var messages = relativePath + '' @ apos @ '' should pass sass-lint'' @ apos @ '';'' @ nl @
     nl @
     ''    if (results.messages) {'' @ nl @
     ''      messages += '' @ apos @ bslash @ ''n'' @ bslash @ ''n'' @ apos @ '' + render(results.messages);'' @ nl @
     ''    }'' @ nl @
     nl @
     ''    return callback(relativePath, passed, messages);'' @ nl @
     ''  }''"

fun fn_source :: "fn \<Rightarrow> string" where
  "fn_source (UserFn src) = src"
| "fn_source (Generator g) = generator_source"
| "fn_source (Native name) = ''function '' @ name @ ''() { [native code] }''"

text \<open>
  \<open>String(v)\<close>, as string concatenation and template literals apply it, and the
  variant \<open>Array.prototype.join\<close> applies to an element (\<open>null\<close> and
  \<open>undefined\<close> print as the empty string there).
\<close>

fun js_tostring :: "jsval \<Rightarrow> string" where
  "js_tostring JUndefined = ''undefined''"
| "js_tostring JNull = ''null''"
| "js_tostring (JBool b) = (if b then ''true'' else ''false'')"
| "js_tostring (JNum n) = show_int n"
| "js_tostring (JStr s) = s"
| "js_tostring (JFun f) = fn_source f"
| "js_tostring (JArr xs) =
     join '','' (map (\<lambda>x. if x = JUndefined \<or> x = JNull then [] else js_tostring x) xs)"
| "js_tostring (JObj kvs) = ''[object Object]''"

definition join_element :: "jsval \<Rightarrow> string" where
  "join_element v = (if v = JUndefined \<or> v = JNull then [] else js_tostring v)"

subsection \<open>Property reads\<close>

text \<open>
  \<open>v[name]\<close>. Reading a property of \<open>undefined\<close> or \<open>null\<close> raises a
  TypeError. An object answers with its own property, else with the member it inherits
  from \<open>Object.prototype\<close>, else with \<open>undefined\<close>. Of the other values only the
  \<open>length\<close> of strings and arrays is modelled; their remaining inherited members
  read as \<open>undefined\<close> here.
\<close>

definition object_prototype_functions :: "string list" where
  "object_prototype_functions =
     [''constructor'', ''toString'', ''toLocaleString'', ''valueOf'', ''hasOwnProperty'',
      ''isPrototypeOf'', ''propertyIsEnumerable'', ''__defineGetter__'', ''__defineSetter__'',
      ''__lookupGetter__'', ''__lookupSetter__'']"

definition object_prototype :: "string \<Rightarrow> jsval" where
  "object_prototype name =
     (if name \<in> set object_prototype_functions then JFun (Native name)
      else if name = ''__proto__'' then JObj []
      else JUndefined)"

fun jsGet :: "jsval \<Rightarrow> string \<Rightarrow> error + jsval" where
  "jsGet JUndefined name =
     Inl (TypeError (''Cannot read property '' @ apos @ name @ apos @ '' of undefined''))"
| "jsGet JNull name =
     Inl (TypeError (''Cannot read property '' @ apos @ name @ apos @ '' of null''))"
| "jsGet (JObj kvs) name =
     Inr (case map_of kvs name of Some v \<Rightarrow> v | None \<Rightarrow> object_prototype name)"
| "jsGet (JStr s) name = Inr (if name = ''length'' then JNum (int (length s)) else JUndefined)"
| "jsGet (JArr xs) name = Inr (if name = ''length'' then JNum (int (length xs)) else JUndefined)"
| "jsGet v name = Inr JUndefined"

section \<open>External packages\<close>

subsection \<open>JSON text\<close>

text \<open>
  \<open>JSON.stringify\<close> of a string: the text between double quotes, with the quote, the
  backslash and the control characters escaped.
\<close>

definition hex_digit :: "nat \<Rightarrow> char" where
  "hex_digit d = (if d < 10 then char_of (48 + d) else char_of (87 + d))"

definition json_escape :: "char \<Rightarrow> string" where
  "json_escape c =
     (if c = CHR 0x22 then [CHR 0x5C, CHR 0x22]
      else if c = CHR 0x5C then [CHR 0x5C, CHR 0x5C]
      else if c = CHR 0x08 then [CHR 0x5C, CHR ''b'']
      else if c = CHR 0x0C then [CHR 0x5C, CHR ''f'']
      else if c = CHR 0x0A then [CHR 0x5C, CHR ''n'']
      else if c = CHR 0x0D then [CHR 0x5C, CHR ''r'']
      else if c = CHR 0x09 then [CHR 0x5C, CHR ''t'']
      else if (of_char c :: nat) < 32
        then [CHR 0x5C, CHR ''u'', CHR ''0'', CHR ''0'',
              hex_digit (of_char c div 16), hex_digit (of_char c mod 16)]
      else [c])"

definition json_quote :: "string \<Rightarrow> string" where
  "json_quote s = dquote @ concat (map json_escape s) @ dquote"

text \<open>
  A value without JSON text (\<open>None\<close>) is printed as \<open>null\<close> in an array and is
  left out of an object.
\<close>

definition or_null :: "string option \<Rightarrow> string" where
  "or_null r = (case r of None \<Rightarrow> ''null'' | Some s \<Rightarrow> s)"

definition object_member :: "string \<Rightarrow> string option \<Rightarrow> string list" where
  "object_member k r = (case r of None \<Rightarrow> [] | Some s \<Rightarrow> [json_quote k @ '':'' @ s])"

text \<open>
  Modelled from the spec: the package \<open>json-stable-stringify\<close> is not part of the
  sources. Section 4.2 asks for a canonical, key-order-independent textual serialization
  in which a function-valued entry is serialized as its source text. The model is JSON
  text whose object members are emitted in ascending key order (keys compare as byte
  strings). The flag says whether the caller passed the replacer
  \<open>functionStringifier\<close>, which turns a function into its source text; without it a
  function has no JSON text, and neither has \<open>undefined\<close>. Objects with a
  \<open>toJSON\<close> hook are outside the model.
\<close>

fun stringify :: "bool \<Rightarrow> jsval \<Rightarrow> string option" where
  "stringify r JUndefined = None"
| "stringify r JNull = Some ''null''"
| "stringify r (JBool b) = Some (if b then ''true'' else ''false'')"
| "stringify r (JNum n) = Some (show_int n)"
| "stringify r (JStr s) = Some (json_quote s)"
| "stringify r (JFun f) = (if r then Some (json_quote (fn_source f)) else None)"
| "stringify r (JArr xs) =
     Some (''['' @ join '','' (map (\<lambda>x. or_null (stringify r x)) xs) @ '']'')"
| "stringify r (JObj kvs) =
     Some (''{'' @ join '','' (concat (map (\<lambda>(k, v). object_member k (stringify r v)) (sort_key fst kvs)))
           @ ''}'')"

text \<open>
  The text that reaches the hash: the components one after the other, or nothing when a
  component is \<open>undefined\<close>.
\<close>

definition md5Input :: "string option list \<Rightarrow> string option" where
  "md5Input parts = map_option concat (those parts)"

text \<open>
  Modelled from the spec: the package \<open>md5-hex\<close> is not part of the sources. Section
  4.2 says that the components are concatenated and hashed with a 128-bit digest. The
  hash itself is the parameter \<open>h\<close>; the digest is kept as the 128-bit value that the
  package prints in hexadecimal. A component that is \<open>undefined\<close> cannot be hashed and
  raises.
\<close>

definition md5Hex :: "(string \<Rightarrow> 128 word) \<Rightarrow> string option list \<Rightarrow> error + 128 word" where
  "md5Hex h parts =
     (case md5Input parts of
        None \<Rightarrow> Inl (TypeError ''Data must be a string or a buffer'')
      | Some text \<Rightarrow> Inr (h text))"

section \<open>The filter (lib/index.js)\<close>

text \<open>
  The fields of a filter instance that the methods read. The collaborators are
  parameters of the methods: \<open>gc\<close> is \<open>linter.getConfig\<close> of sass-lint, \<open>mm\<close> is
  \<open>minimatch\<close> (which may raise on an argument that is no glob), \<open>h\<close> is MD5,
  \<open>host\<close> is \<open>Filter.prototype.getDestFilePath\<close> of the host pipeline.
\<close>

record scss_linter =
  options :: jsval
  config :: jsval
  testGenerator :: jsval
  targetExtension :: jsval
  others :: "(string \<times> jsval) list"

definition getConfig :: "(jsval \<Rightarrow> jsval \<Rightarrow> jsval) \<Rightarrow> scss_linter \<Rightarrow> jsval" where
  "getConfig gc self = gc (options self) (config self)"

definition cacheKeyParts ::
  "(jsval \<Rightarrow> jsval \<Rightarrow> jsval) \<Rightarrow> scss_linter \<Rightarrow> string \<Rightarrow> string \<Rightarrow> string option list" where
  "cacheKeyParts gc self content relativePath =
     [Some content, Some relativePath,
      stringify True (options self),
      stringify False (getConfig gc self)]"

definition cacheKeyProcessString ::
  "(string \<Rightarrow> 128 word) \<Rightarrow> (jsval \<Rightarrow> jsval \<Rightarrow> jsval) \<Rightarrow> scss_linter \<Rightarrow> string \<Rightarrow> string
     \<Rightarrow> error + 128 word" where
  "cacheKeyProcessString h gc self content relativePath =
     md5Hex h (cacheKeyParts gc self content relativePath)"

fun ignore_loop :: "(string \<Rightarrow> jsval \<Rightarrow> error + bool) \<Rightarrow> string \<Rightarrow> jsval list \<Rightarrow> error + bool" where
  "ignore_loop mm relativePath [] = Inr False"
| "ignore_loop mm relativePath (file # rest) =
     (case mm relativePath file of
        Inl e \<Rightarrow> Inl e
      | Inr matched \<Rightarrow> if matched then Inr True else ignore_loop mm relativePath rest)"

definition shouldIgnore ::
  "(string \<Rightarrow> jsval \<Rightarrow> error + bool) \<Rightarrow> (jsval \<Rightarrow> jsval \<Rightarrow> jsval) \<Rightarrow> scss_linter \<Rightarrow> string
     \<Rightarrow> error + bool" where
  "shouldIgnore mm gc self relativePath =
     (case jsGet (getConfig gc self) ''files'' of
        Inl e \<Rightarrow> Inl e
      | Inr files \<Rightarrow>
          (case jsGet files ''ignore'' of
             Inl e \<Rightarrow> Inl e
           | Inr ignore \<Rightarrow>
               (case ignore of
                  JStr s \<Rightarrow>
                    (case mm relativePath (JStr s) of
                       Inl e \<Rightarrow> Inl e
                     | Inr matched \<Rightarrow> if matched then Inr True else Inr False)
                | JArr xs \<Rightarrow> if length xs > 0 then ignore_loop mm relativePath xs else Inr False
                | _ \<Rightarrow> Inr False)))"

definition getDestFilePath ::
  "(string \<Rightarrow> jsval \<Rightarrow> error + bool) \<Rightarrow> (jsval \<Rightarrow> jsval \<Rightarrow> jsval) \<Rightarrow> (string \<Rightarrow> string option)
     \<Rightarrow> scss_linter \<Rightarrow> string \<Rightarrow> error + string option" where
  "getDestFilePath mm gc host self relativePath =
     (case shouldIgnore mm gc self relativePath of
        Inl e \<Rightarrow> Inl e
      | Inr ignored \<Rightarrow> if ignored then Inr None else Inr (host relativePath))"

subsection \<open>Reports and post-processing\<close>

text \<open>
  A lint report as sass-lint produces it: the messages and the two counts. A count is a
  number or absent, the message list is an array or absent.
\<close>

record lint_message =
  line :: int
  column :: int
  message :: string
  ruleId :: string
  severity :: int

record report =
  errorCount :: "int option"
  warningCount :: "int option"
  messages :: "lint_message list option"

definition count_truthy :: "int option \<Rightarrow> bool" where
  "count_truthy c = (case c of None \<Rightarrow> False | Some n \<Rightarrow> n \<noteq> 0)"

text \<open>
  \<open>postProcess\<close> takes \<open>{ report, output }\<close> and returns \<open>{ output }\<close>. The
  reporting collaborator \<open>linter.outputResults\<close> is modelled by the log of the calls
  made to it: the reports, the options and the configuration path it was given.
\<close>

record post_result =
  "output" :: string

record cache_object = post_result +
  report :: report

type_synonym sink = "(report list \<times> jsval \<times> jsval) list"

definition outputResults :: "scss_linter \<Rightarrow> sink \<Rightarrow> report list \<Rightarrow> report list \<times> sink" where
  "outputResults self log reports = (reports, log @ [(reports, options self, config self)])"

definition postProcess :: "scss_linter \<Rightarrow> sink \<Rightarrow> cache_object \<Rightarrow> post_result \<times> sink" where
  "postProcess self log results =
     (let log' = (if count_truthy (errorCount (report results))
                     \<or> count_truthy (warningCount (report results))
                  then snd (outputResults self log [report results])
                  else log)
      in (\<lparr>output = output results\<rparr>, log'))"

section \<open>The test generators (dist/test-generators.js)\<close>

definition renderLine :: "lint_message \<Rightarrow> string" where
  "renderLine error =
     show_int (line error) @ '':'' @ show_int (column error) @ '' - '' @ message error
       @ '' ('' @ ruleId error @ '')''"

definition render :: "lint_message list \<Rightarrow> string" where
  "render errors = join nl (map renderLine errors)"

text \<open>
  \<open>results.errorCount.length\<close> is read only when the count is a non-zero number, and
  a number has no \<open>length\<close>.
\<close>

definition number_length :: "int option \<Rightarrow> jsval" where
  "number_length c = JUndefined"

text \<open>
  \<open>function testGenerator(callback)\<close>: the generator built around a callback. An
  array is truthy even when it is empty, so the test \<open>if (results.messages)\<close> asks
  whether the list is present.
\<close>

definition testGenerator_factory ::
  "(string \<Rightarrow> bool \<Rightarrow> string \<Rightarrow> 'a) \<Rightarrow> string \<Rightarrow> lint_message list \<Rightarrow> report \<Rightarrow> 'a" where
  "testGenerator_factory callback relativePath errors results =
     (let passed = (\<not> count_truthy (errorCount results)
                     \<or> number_length (errorCount results) = JNum 0);
          messages0 = relativePath @ '' should pass sass-lint'';
          messages1 = (case messages results of
                         Some ms \<Rightarrow> messages0 @ nl @ nl @ render ms
                       | None \<Rightarrow> messages0)
      in callback relativePath passed messages1)"

definition bool_text :: "bool \<Rightarrow> string" where
  "bool_text b = (if b then ''true'' else ''false'')"

text \<open>The package \<open>js-string-escape\<close> is the parameter \<open>esc\<close>.\<close>

definition qunitString :: "(string \<Rightarrow> string) \<Rightarrow> string \<Rightarrow> bool \<Rightarrow> string \<Rightarrow> string" where
  "qunitString esc relativePath passed msgs =
     ''QUnit.module('' @ apos @ ''SCSS Lint | '' @ esc relativePath @ apos @ '');'' @ nl
     @ ''QUnit.test('' @ apos @ ''should pass sass-lint'' @ apos @ '', function(assert) {'' @ nl
     @ ''  assert.expect(1);'' @ nl
     @ ''  assert.ok('' @ bool_text passed @ '', '' @ apos @ esc msgs @ apos @ '');'' @ nl
     @ ''});'' @ nl"

definition mochaString :: "(string \<Rightarrow> string) \<Rightarrow> string \<Rightarrow> bool \<Rightarrow> string \<Rightarrow> string" where
  "mochaString esc relativePath passed msgs =
     (let output0 = ''describe('' @ apos @ ''SCSS Lint | '' @ esc relativePath @ apos
                      @ '', function() {'' @ nl
                    @ ''  it('' @ apos @ ''should pass sass-lint'' @ apos @ '', function() {'' @ nl;
          output1 = (if passed then output0 @ ''    // SCSS Lint passed'' @ nl
                     else output0 @ ''    // SCSS Lint failed'' @ nl
                       @ ''    var error = new chai.AssertionError('' @ apos @ esc msgs @ apos
                       @ '');'' @ nl
                       @ ''    error.stack = undefined;'' @ nl
                       @ ''    throw error;'' @ nl)
      in output1 @ ''  });'' @ nl @ ''});'' @ nl)"

fun run_generator ::
  "(string \<Rightarrow> string) \<Rightarrow> generator \<Rightarrow> string \<Rightarrow> lint_message list \<Rightarrow> report \<Rightarrow> string" where
  "run_generator esc qunit = testGenerator_factory (qunitString esc)"
| "run_generator esc mocha = testGenerator_factory (mochaString esc)"

text \<open>
  The last statement of the module is \<open>module.exports = { quint: quint, mocha: mocha }\<close>.
  An object literal evaluates its member expressions in order; an identifier that no
  declaration binds raises a ReferenceError. The module's variables are \<open>qunit\<close> and
  \<open>mocha\<close> (lines 112 and 113). Its function declarations and its import are bound as
  well, and appear here as the HOL functions above, since the export statement does not
  mention them.
\<close>

definition module_scope :: "(string \<times> jsval) list" where
  "module_scope = [(''qunit'', JFun (Generator qunit)), (''mocha'', JFun (Generator mocha))]"

definition resolve :: "string \<Rightarrow> error + jsval" where
  "resolve name =
     (case map_of module_scope name of
        None \<Rightarrow> Inl (ReferenceError (name @ '' is not defined''))
      | Some v \<Rightarrow> Inr v)"

definition exports_literal :: "(string \<times> string) list" where
  "exports_literal = [(''quint'', ''quint''), (''mocha'', ''mocha'')]"

fun eval_members :: "(string \<times> string) list \<Rightarrow> error + (string \<times> jsval) list" where
  "eval_members [] = Inr []"
| "eval_members ((key, name) # rest) =
     (case resolve name of
        Inl e \<Rightarrow> Inl e
      | Inr v \<Rightarrow> (case eval_members rest of Inl e \<Rightarrow> Inl e | Inr kvs \<Rightarrow> Inr ((key, v) # kvs)))"

definition test_generators :: "error + jsval" where
  "test_generators = (case eval_members exports_literal of Inl e \<Rightarrow> Inl e | Inr kvs \<Rightarrow> Inr (JObj kvs))"

section \<open>The constructor (lib/index.js, dist/index.js)\<close>

text \<open>
  \<open>this[key] = value\<close> on the instance. \<open>base\<close> is the constructor of the host's
  filter class, which either returns or raises. An option named like a method would
  shadow that method on the instance; the methods of this theory are the prototype's, and
  such an option is kept with the other properties.
\<close>

definition set_property :: "scss_linter \<Rightarrow> string \<Rightarrow> jsval \<Rightarrow> scss_linter" where
  "set_property self key v =
     (if key = ''options'' then self\<lparr>options := v\<rparr>
      else if key = ''config'' then self\<lparr>config := v\<rparr>
      else if key = ''testGenerator'' then self\<lparr>testGenerator := v\<rparr>
      else if key = ''targetExtension'' then self\<lparr>targetExtension := v\<rparr>
      else self\<lparr>others := (key, v) # filter (\<lambda>kv. fst kv \<noteq> key) (others self)\<rparr>)"

text \<open>
  The loop \<open>for (const key of Object.keys(this.options)) this[key] = this.options[key]\<close>:
  the keys are fixed when the loop starts, and every step reads \<open>this.options\<close> anew.
\<close>

fun copy_options :: "scss_linter \<Rightarrow> string list \<Rightarrow> error + scss_linter" where
  "copy_options self [] = Inr self"
| "copy_options self (key # keys) =
     (case jsGet (options self) key of
        Inl e \<Rightarrow> Inl e
      | Inr v \<Rightarrow> copy_options (set_property self key v) keys)"

definition resolve_testGenerator :: "scss_linter \<Rightarrow> error + scss_linter" where
  "resolve_testGenerator self =
     (if typeof (testGenerator self) = ''string'' then
        (case test_generators of
           Inl e \<Rightarrow> Inl e
         | Inr exports \<Rightarrow>
             (case jsGet exports (js_tostring (testGenerator self)) of
                Inl e \<Rightarrow> Inl e
              | Inr g \<Rightarrow>
                  if \<not> truthy g
                  then Inl (Error (''Could not find '' @ apos @ js_tostring g @ apos
                                     @ '' test generator.''))
                  else Inr (self\<lparr>testGenerator := g\<rparr>)))
      else Inr self)"

definition ScssLinter ::
  "(jsval \<Rightarrow> error option) \<Rightarrow> jsval \<Rightarrow> (string \<times> jsval) list \<Rightarrow> error + scss_linter" where
  "ScssLinter base inputNode opts =
     (if typeof inputNode = ''undefined'' \<or> typeof inputNode \<noteq> ''object''
      then Inl (Error ''Invalid input node.'')
      else
        (case base inputNode of
           Some e \<Rightarrow> Inl e
         | None \<Rightarrow>
             (case copy_options
                     \<lparr>options = JObj opts, config = JUndefined, testGenerator = JUndefined,
                      targetExtension = JStr ''scss'', others = []\<rparr>
                     (map fst opts) of
                Inl e \<Rightarrow> Inl e
              | Inr self \<Rightarrow>
                  (case resolve_testGenerator self of
                     Inl e \<Rightarrow> Inl e
                   | Inr self' \<Rightarrow>
                       Inr (if truthy (testGenerator self')
                            then self'\<lparr>targetExtension := JStr ''sass-lint-test.js''\<rparr>
                            else self')))))"

section \<open>The command-line filter (index.js)\<close>

text \<open>
  The older filter runs the \<open>scss-lint\<close> binary. \<open>path.join\<close>, \<open>path.dirname\<close>,
  \<open>shell.exec\<close> and \<open>js-string-escape\<close> are collaborators.
\<close>

record exec_result =
  stdout :: string
  code :: int

record cli_env =
  path_join :: "string \<Rightarrow> string \<Rightarrow> string"
  path_dirname :: "string \<Rightarrow> string"
  shell_exec :: "string \<Rightarrow> exec_result"
  escapeErrorString :: "string \<Rightarrow> string"

record cli_linter =
  cli_options :: "(string \<times> jsval) list"
  cli_inputPath :: string
  cli_disableTestGenerator :: jsval
  cli_errors :: "string list"

record cli_result =
  cli_output :: string
  cli_passed :: bool
  cli_errors_text :: string

text \<open>
  \<open>_buildCommand\<close> returns the command line. It deletes \<open>bundleExec\<close> from the
  object it is given, which is the caller's object, so the object after the call is
  returned too.
\<close>

definition buildCommand :: "string \<Rightarrow> (string \<times> jsval) list \<Rightarrow> string \<times> (string \<times> jsval) list" where
  "buildCommand absolutePath opts =
     (let parts0 = [''scss-lint'', absolutePath];
          parts1 = (if (case map_of opts ''bundleExec'' of Some v \<Rightarrow> truthy v | None \<Rightarrow> False)
                    then [''bundle'', ''exec''] @ parts0 else parts0);
          opts' = filter (\<lambda>kv. fst kv \<noteq> ''bundleExec'') opts;
          parts2 = parts1 @ concat (map (\<lambda>(key, v). [''--'' @ key, join_element v]) opts')
      in (join '' '' parts2, opts'))"

fun indexOf :: "string \<Rightarrow> string \<Rightarrow> int" where
  "indexOf [] needle = (if needle = [] then 0 else - 1)"
| "indexOf (c # cs) needle =
     (if take (length needle) (c # cs) = needle then 0
      else (let r = indexOf cs needle in if r < 0 then - 1 else r + 1))"

definition substring :: "string \<Rightarrow> int \<Rightarrow> string" where
  "substring s i = drop (nat (max 0 i)) s"

definition testGenerator_cli :: "cli_env \<Rightarrow> string \<Rightarrow> bool \<Rightarrow> string \<Rightarrow> string" where
  "testGenerator_cli env relativePath passed errors =
     (let errors' = (if errors \<noteq> [] then bslash @ ''n'' @ escapeErrorString env errors else [])
      in ''QUnit.module('' @ apos @ ''JSHint - '' @ path_dirname env relativePath @ apos @ '');'' @ nl
         @ ''QUnit.test('' @ apos @ relativePath @ '' should pass jshint'' @ apos
         @ '', function(assert) { '' @ nl
         @ ''  assert.expect(1);'' @ nl
         @ ''  assert.ok('' @ bool_text passed @ '', '' @ apos @ relativePath
         @ '' should pass jshint.'' @ errors' @ apos @ ''); '' @ nl
         @ ''});'' @ nl)"

definition processString_cli ::
  "cli_env \<Rightarrow> cli_linter \<Rightarrow> string \<Rightarrow> string \<Rightarrow> (error + cli_result) \<times> cli_linter" where
  "processString_cli env self content relativePath =
     (let absolutePath = path_join env (cli_inputPath self) relativePath;
          (command, opts') = buildCommand absolutePath (cli_options self);
          self' = self\<lparr>cli_options := opts'\<rparr>;
          result = shell_exec env command;
          passed = (length (stdout result) \<le> 0);
          errors = substring (stdout result) (indexOf (stdout result) relativePath)
      in if code result = 2
         then (Inl (Error ''There are errors in your SCSS files''), self')
         else
           (let output = (if \<not> truthy (cli_disableTestGenerator self')
                          then testGenerator_cli env relativePath passed errors else [])
            in (Inr \<lparr>cli_output = output, cli_passed = passed, cli_errors_text = errors\<rparr>, self')))"

definition postProcess_cli :: "cli_linter \<Rightarrow> cli_result \<Rightarrow> cli_result \<times> cli_linter" where
  "postProcess_cli self result =
     (result,
      if length (cli_errors_text result) > 0
      then self\<lparr>cli_errors := cli_errors self @ [cli_errors_text result]\<rparr>
      else self)"

section \<open>The specification's words\<close>


text \<open>
  The message block as the specification words it: the header
  \<open>"{relativePath} should pass lint"\<close> and the line
  \<open>"{line}:{column} - {text} ({ruleId})"\<close> of one message.
\<close>

definition claimed_header :: "string \<Rightarrow> string" where
  "claimed_header relativePath = relativePath @ '' should pass lint''"

definition claimed_line :: "lint_message \<Rightarrow> string" where
  "claimed_line m =
     show_int (line m) @ '':'' @ show_int (column m) @ '' - '' @ message m @ '' ('' @ ruleId m @ '')''"

section \<open>The JSON value of a value\<close>

text \<open>
  What the JSON text of a value keeps of it. A function is the string of its source when
  the replacer is passed and is left out otherwise; an object's member whose value has no
  JSON text is left out; an array's element that has no JSON text is \<open>null\<close>; the members
  of an object come in key order, at every depth. Two values have the same JSON text
  exactly when they have the same JSON value (lemma \<open>stringify_eq_iff\<close>).
\<close>

definition null_if_undefined :: "jsval \<Rightarrow> jsval" where
  "null_if_undefined j = (if j = JUndefined then JNull else j)"

fun json_value :: "bool \<Rightarrow> jsval \<Rightarrow> jsval" where
  "json_value r (JFun f) = (if r then JStr (fn_source f) else JUndefined)"
| "json_value r (JArr xs) = JArr (map (\<lambda>x. null_if_undefined (json_value r x)) xs)"
| "json_value r (JObj kvs) =
     JObj (filter (\<lambda>kj. snd kj \<noteq> JUndefined)
             (sort_key fst (map (\<lambda>(k, v). (k, json_value r v)) kvs)))"
| "json_value r v = v"

section \<open>Devices for the proofs\<close>








text \<open>
  The members of an object that have a JSON text, and the text of one member.
\<close>

definition kept :: "bool \<Rightarrow> (string \<times> jsval) list \<Rightarrow> (string \<times> jsval) list" where
  "kept r kvs = filter (\<lambda>kv. stringify r (snd kv) \<noteq> None) kvs"


section \<open>Facts about the serialization\<close>

subsection \<open>Key order\<close>

lemma filter_key_single:
  "distinct (map fst xs) \<Longrightarrow> k \<in> set xs \<Longrightarrow> filter (\<lambda>x. fst k = fst x) xs = [k]"
proof (induction xs)
  case Nil
  then show ?case by simp
next
  case (Cons a xs)
  show ?case
  proof (cases "k = a")
    case True
    have "filter (\<lambda>x. fst a = fst x) xs = []"
      using Cons.prems(1) by (auto simp: filter_empty_conv)
    with True show ?thesis by simp
  next
    case False
    with Cons.prems have "k \<in> set xs" by simp
    moreover have "fst k \<noteq> fst a"
    proof
      assume "fst k = fst a"
      with \<open>k \<in> set xs\<close> have "fst a \<in> set (map fst xs)" by (metis imageI set_map)
      with Cons.prems(1) show False by simp
    qed
    ultimately show ?thesis using Cons by simp
  qed
qed

lemma sort_key_fst_unique:
  assumes "distinct (map fst xs)" and "distinct (map fst ys)" and "map_of xs = map_of ys"
  shows "sort_key fst xs = sort_key fst ys"
proof -
  have s: "set xs = set ys"
    using assms by (simp add: map_of_inject_set)
  have dx: "distinct xs" and dy: "distinct ys"
    using assms(1,2) by (auto simp: distinct_map)
  have m: "mset xs = mset ys"
    using s dx dy by (simp add: set_eq_iff_mset_eq_distinct)
  show ?thesis
  proof (rule properties_for_sort_key)
    show "mset (sort_key fst ys) = mset xs" using m by simp
    show "sorted (map fst (sort_key fst ys))" by simp
    fix k assume "k \<in> set (sort_key fst ys)"
    then have ky: "k \<in> set ys" by simp
    then have kx: "k \<in> set xs" using s by simp
    have "filter (\<lambda>x. fst k = fst x) (sort_key fst ys) = [k]"
      using ky assms(2) by (intro filter_key_single) (simp_all add: distinct_map)
    moreover have "filter (\<lambda>x. fst k = fst x) xs = [k]"
      using kx assms(1) by (rule filter_key_single[rotated])
    ultimately show "filter (\<lambda>x. fst k = fst x) (sort_key fst ys) = filter (\<lambda>x. fst k = fst x) xs"
      by simp
  qed
qed

lemma stringify_obj_perm:
  assumes "distinct (map fst xs)" and "distinct (map fst ys)" and "map_of xs = map_of ys"
  shows "stringify r (JObj xs) = stringify r (JObj ys)"
  using sort_key_fst_unique[OF assms] by simp

lemma md5Input_four:
  "md5Input [Some a, Some b, Some c, Some d] = Some (a @ b @ c @ d)"
  by (simp add: md5Input_def)

lemma stringify_obj_Some: "\<exists>s. stringify r (JObj kvs) = Some s"
  by simp

subsection \<open>Numbers print one-to-one\<close>












subsection \<open>Strings print one-to-one\<close>















subsection \<open>Changing one member of an object\<close>

lemma insort_key_map_commute:
  assumes "\<And>x. fst (f x) = fst x"
  shows "insort_key fst (f x) (map f xs) = map f (insort_key fst x xs)"
  by (induction xs) (simp_all add: assms)

lemma sort_key_map_commute:
  assumes "\<And>x. fst (f x) = fst x"
  shows "sort_key fst (map f xs) = map f (sort_key fst xs)"
  by (induction xs) (simp_all add: insort_key_map_commute[OF assms])






subsection \<open>An object's text ends where its bracket closes\<close>















lemma show_int_1_2: "show_int 1 = ''1''" "show_int 2 = ''2''"
  by code_simp+

section \<open>The text determines the JSON value\<close>

subsection \<open>First characters\<close>

lemma json_value_undefined: "json_value r v = JUndefined \<longleftrightarrow> stringify r v = None"
  by (cases v) simp_all










subsection \<open>Lists of items between commas\<close>








lemma json_value_obj:
  "json_value r (JObj kvs)
     = JObj (map (\<lambda>kv. (fst kv, json_value r (snd kv))) (kept r (sort_key fst kvs)))"
proof -
  have f: "(\<lambda>(k, v). (k, json_value r v)) = (\<lambda>kv. (fst kv, json_value r (snd kv)))"
    by (rule ext) (simp add: case_prod_beta)
  have flt: "filter (\<lambda>kj. snd kj \<noteq> JUndefined) (map (\<lambda>kv. (fst kv, json_value r (snd kv))) l)
      = map (\<lambda>kv. (fst kv, json_value r (snd kv))) (kept r l)" for l
    by (induction l) (simp_all add: kept_def json_value_undefined)
  have srt: "sort_key fst (map (\<lambda>kv. (fst kv, json_value r (snd kv))) kvs)
      = map (\<lambda>kv. (fst kv, json_value r (snd kv))) (sort_key fst kvs)"
    by (rule sort_key_map_commute) simp
  show ?thesis
    unfolding json_value.simps f srt flt ..
qed


subsection \<open>Equal texts, equal JSON values\<close>





subsection \<open>Equal JSON values, equal texts\<close>




section \<open>What the constructor stores\<close>





lemma json_value_reorder:
  assumes "distinct (map fst xs)" and "distinct (map fst ys)" and "map_of xs = map_of ys"
  shows "json_value r (JObj xs) = json_value r (JObj ys)"
  using sort_key_fst_unique[OF assms] by (simp only: json_value_obj)



section \<open>The cache key\<close>

text \<open>
  C1. The options \<open>{options: {}, config: 'x.yml'}\<close> and \<open>{config: 'x.yml', options: {}}\<close>
  are the same mapping with the keys inserted in two orders. The constructor's loop
  \<open>this[key] = this.options[key]\<close> reads \<open>this.options\<close> again at every key, so once the
  key \<open>options\<close> has replaced it the later keys are read from the inner object: the
  first filter has no \<open>config\<close>, the second has \<open>'x.yml'\<close>. With a \<open>getConfig\<close> whose result
  depends on the configuration path, the texts hashed for one file differ, so the two
  filters get different digests wherever the hash tells the two texts apart.
\<close>

theorem cacheKey_depends_on_key_order:
  "distinct (map fst [(''options'', JObj []), (''config'', JStr ''x.yml'')])
   \<and> distinct (map fst [(''config'', JStr ''x.yml''), (''options'', JObj [])])
   \<and> map_of [(''options'', JObj []), (''config'', JStr ''x.yml'')]
       = map_of [(''config'', JStr ''x.yml''), (''options'', JObj [])]
   \<and> ScssLinter (\<lambda>node. None) (JObj []) [(''options'', JObj []), (''config'', JStr ''x.yml'')]
     = Inr \<lparr>options = JObj [], config = JUndefined, testGenerator = JUndefined,
            targetExtension = JStr ''scss'', others = []\<rparr>
   \<and> ScssLinter (\<lambda>node. None) (JObj []) [(''config'', JStr ''x.yml''), (''options'', JObj [])]
     = Inr \<lparr>options = JObj [], config = JStr ''x.yml'', testGenerator = JUndefined,
            targetExtension = JStr ''scss'', others = []\<rparr>
   \<and> cacheKeyProcessString h (\<lambda>opts path. JObj [(''file'', path)])
        \<lparr>options = JObj [], config = JUndefined, testGenerator = JUndefined,
         targetExtension = JStr ''scss'', others = []\<rparr> ''a { }'' ''a.scss''
     = Inr (h ''a { }a.scss{}{}'')
   \<and> cacheKeyProcessString h (\<lambda>opts path. JObj [(''file'', path)])
        \<lparr>options = JObj [], config = JStr ''x.yml'', testGenerator = JUndefined,
         targetExtension = JStr ''scss'', others = []\<rparr> ''a { }'' ''a.scss''
     = Inr (h (''a { }a.scss{}{'' @ dquote @ ''file'' @ dquote @ '':'' @ dquote @ ''x.yml'' @ dquote @ ''}''))
   \<and> ''a { }a.scss{}{}''
     \<noteq> ''a { }a.scss{}{'' @ dquote @ ''file'' @ dquote @ '':'' @ dquote @ ''x.yml'' @ dquote @ ''}''"
proof -
  have m: "map_of [(''options'', JObj []), (''config'', JStr ''x.yml'')]
       = map_of [(''config'', JStr ''x.yml''), (''options'', JObj [])]"
    by (auto simp: fun_eq_iff)
  show ?thesis
    unfolding m
    by (simp add: ScssLinter_def resolve_testGenerator_def set_property_def object_prototype_def
      object_prototype_functions_def cacheKeyProcessString_def cacheKeyParts_def md5Hex_def
      md5Input_def getConfig_def object_member_def json_quote_def dquote_def json_escape_def)
qed




text \<open>
  C10. The contents \<open>a\<close> with the path \<open>b.scss\<close> and the contents \<open>ab\<close> with the
  path \<open>.scss\<close> are different inputs with the same digest under any configuration,
  because the components are hashed as one concatenated text.
\<close>

theorem cacheKey_collision:
  assumes "options self = JObj kvs" and "getConfig gc self = JObj cfg"
  shows "(''a'', ''b.scss'') \<noteq> (''ab'', ''.scss'')
       \<and> (\<exists>d. cacheKeyProcessString h gc self ''a'' ''b.scss'' = Inr d
              \<and> cacheKeyProcessString h gc self ''ab'' ''.scss'' = Inr d)"
proof -
  obtain so where so: "stringify True (JObj kvs) = Some so"
    using stringify_obj_Some by blast
  obtain sg where sg: "stringify False (JObj cfg) = Some sg"
    using stringify_obj_Some by blast
  have "cacheKeyProcessString h gc self ''a'' ''b.scss'' = Inr (h (''ab.scss'' @ so @ sg))"
    unfolding cacheKeyProcessString_def cacheKeyParts_def md5Hex_def
    using so sg assms by (simp add: md5Input_four)
  moreover have "cacheKeyProcessString h gc self ''ab'' ''.scss'' = Inr (h (''ab.scss'' @ so @ sg))"
    unfolding cacheKeyProcessString_def cacheKeyParts_def md5Hex_def
    using so sg assms by (simp add: md5Input_four)
  ultimately show ?thesis by simp
qed

theorem cacheKey_collision_witness:
  "(''a'', ''b.scss'') \<noteq> (''ab'', ''.scss'') \<and> (\<exists>d. cacheKeyProcessString (\<lambda>text. of_nat (length text)) (\<lambda>opts path. JObj [(''files'', JObj [])])
          \<lparr>options = JObj [(''config'', JStr ''lint.yml'')],
           config = JStr ''lint.yml'', testGenerator = JUndefined,
           targetExtension = JStr ''scss'', others = []\<rparr> ''a'' ''b.scss'' = Inr d
      \<and> cacheKeyProcessString (\<lambda>text. of_nat (length text)) (\<lambda>opts path. JObj [(''files'', JObj [])])
          \<lparr>options = JObj [(''config'', JStr ''lint.yml'')],
           config = JStr ''lint.yml'', testGenerator = JUndefined,
           targetExtension = JStr ''scss'', others = []\<rparr> ''ab'' ''.scss'' = Inr d)"
  by (rule cacheKey_collision) (simp_all add: getConfig_def)

section \<open>Ignored paths\<close>

lemma ignore_loop_total:
  "\<forall>x\<in>set xs. \<exists>b. mm p x = Inr b \<Longrightarrow>
     ignore_loop mm p xs = Inr (\<exists>x\<in>set xs. mm p x = Inr True)"
  by (induction xs) auto

lemma ignore_loop_first:
  "\<forall>y\<in>set xs. mm p y = Inr False \<Longrightarrow> mm p x = Inr True \<Longrightarrow>
     ignore_loop mm p (xs @ x # ys) = Inr True"
  by (induction xs) auto

text \<open>
  C3. With a resolved configuration that has a \<open>files\<close> entry, \<open>shouldIgnore\<close>
  answers what the matcher answers for a single pattern, answers whether some pattern of
  a sequence matches when the matcher accepts them all, answers no for an empty or absent
  value and for a value that is neither a string nor a sequence, and answers yes at the
  first matching pattern of a sequence whatever follows it.
\<close>

theorem shouldIgnore_spec:
  assumes "jsGet (getConfig gc self) ''files'' = Inr files"
    and "jsGet files ''ignore'' = Inr ignore"
  shows "(ignore = JStr s \<and> mm p (JStr s) = Inr b \<longrightarrow> shouldIgnore mm gc self p = Inr b)
       \<and> (ignore = JArr xs \<and> (\<forall>x\<in>set xs. \<exists>b. mm p x = Inr b) \<longrightarrow>
            shouldIgnore mm gc self p = Inr (\<exists>x\<in>set xs. mm p x = Inr True))
       \<and> (ignore = JArr [] \<or> ignore = JUndefined \<longrightarrow> shouldIgnore mm gc self p = Inr False)
       \<and> ((\<forall>s. ignore \<noteq> JStr s) \<and> (\<forall>xs. ignore \<noteq> JArr xs) \<longrightarrow>
            shouldIgnore mm gc self p = Inr False)
       \<and> (ignore = JArr (ys @ y # zs) \<and> (\<forall>x\<in>set ys. mm p x = Inr False) \<and> mm p y = Inr True \<longrightarrow>
            shouldIgnore mm gc self p = Inr True)"
proof (intro conjI impI)
  assume "ignore = JStr s \<and> mm p (JStr s) = Inr b"
  then show "shouldIgnore mm gc self p = Inr b"
    using assms by (simp add: shouldIgnore_def)
next
  assume a: "ignore = JArr xs \<and> (\<forall>x\<in>set xs. \<exists>b. mm p x = Inr b)"
  then have "ignore_loop mm p xs = Inr (\<exists>x\<in>set xs. mm p x = Inr True)"
    by (intro ignore_loop_total) simp
  then show "shouldIgnore mm gc self p = Inr (\<exists>x\<in>set xs. mm p x = Inr True)"
    using assms a by (cases xs) (simp_all add: shouldIgnore_def)
next
  assume "ignore = JArr [] \<or> ignore = JUndefined"
  then show "shouldIgnore mm gc self p = Inr False"
    using assms by (auto simp: shouldIgnore_def)
next
  assume "(\<forall>s. ignore \<noteq> JStr s) \<and> (\<forall>xs. ignore \<noteq> JArr xs)"
  then show "shouldIgnore mm gc self p = Inr False"
    using assms by (cases ignore) (simp_all add: shouldIgnore_def)
next
  assume a: "ignore = JArr (ys @ y # zs) \<and> (\<forall>x\<in>set ys. mm p x = Inr False) \<and> mm p y = Inr True"
  then have "ignore_loop mm p (ys @ y # zs) = Inr True"
    by (intro ignore_loop_first) simp_all
  then show "shouldIgnore mm gc self p = Inr True"
    using assms a by (simp add: shouldIgnore_def)
qed

theorem shouldIgnore_spec_witness:
  "shouldIgnore
     (\<lambda>p pat. case pat of JStr s \<Rightarrow> Inr (s = p) | _ \<Rightarrow> Inl (TypeError ''glob pattern string required''))
     (\<lambda>opts path. JObj [(''files'', JObj [(''ignore'', JArr [JStr ''b.scss'', JStr ''a.scss'', JNum 1])])])
     \<lparr>options = JObj [], config = JUndefined, testGenerator = JUndefined,
      targetExtension = JStr ''scss'', others = []\<rparr>
     ''a.scss'' = Inr True"
proof -
  let ?mm = "\<lambda>p pat. case pat of JStr s \<Rightarrow> Inr (s = p) | _ \<Rightarrow> Inl (TypeError ''glob pattern string required'')"
  let ?gc = "\<lambda>opts path. JObj [(''files'', JObj [(''ignore'', JArr [JStr ''b.scss'', JStr ''a.scss'', JNum 1])])]"
  let ?self = "\<lparr>options = JObj [], config = JUndefined, testGenerator = JUndefined,
      targetExtension = JStr ''scss'', others = []\<rparr>"
  have f: "jsGet (getConfig ?gc ?self) ''files''
             = Inr (JObj [(''ignore'', JArr [JStr ''b.scss'', JStr ''a.scss'', JNum 1])])"
    by (simp add: getConfig_def)
  have i: "jsGet (JObj [(''ignore'', JArr [JStr ''b.scss'', JStr ''a.scss'', JNum 1])]) ''ignore''
             = Inr (JArr ([JStr ''b.scss''] @ JStr ''a.scss'' # [JNum 1]))"
    by simp
  from shouldIgnore_spec[OF f i, where mm = ?mm and p = "''a.scss''" and ys = "[JStr ''b.scss'']"
      and y = "JStr ''a.scss''" and zs = "[JNum 1]"]
  show ?thesis by simp
qed

lemma shouldIgnore_vendor:
  "shouldIgnore (\<lambda>p pat. Inr (pat = JStr ''vendor/**'' \<and> take 7 p = ''vendor/''))
     (\<lambda>opts path. JObj [(''files'', JObj [(''ignore'', JStr ''vendor/**'')])])
     \<lparr>options = JObj [], config = JUndefined, testGenerator = JUndefined,
      targetExtension = JStr ''scss'', others = []\<rparr> ''vendor/reset.scss'' = Inr True"
  by (simp add: shouldIgnore_def getConfig_def)

text \<open>
  C4. \<open>getDestFilePath\<close> returns \<open>null\<close> for an ignored path and the host's
  destination path for any other; an error of the ignore check is passed on.
\<close>

theorem getDestFilePath_spec:
  "(shouldIgnore mm gc self p = Inr ignored \<longrightarrow>
      getDestFilePath mm gc host self p = Inr (if ignored then None else host p))
   \<and> (shouldIgnore mm gc self p = Inl e \<longrightarrow> getDestFilePath mm gc host self p = Inl e)"
  by (simp add: getDestFilePath_def)

theorem getDestFilePath_spec_witness:
  "getDestFilePath (\<lambda>p pat. Inr (pat = JStr ''vendor/**'' \<and> take 7 p = ''vendor/''))
     (\<lambda>opts path. JObj [(''files'', JObj [(''ignore'', JStr ''vendor/**'')])])
     (\<lambda>p. Some p)
     \<lparr>options = JObj [], config = JUndefined, testGenerator = JUndefined,
      targetExtension = JStr ''scss'', others = []\<rparr> ''vendor/reset.scss'' = Inr None"
  using getDestFilePath_spec[where ignored = True, THEN conjunct1, THEN mp, OF shouldIgnore_vendor]
  by simp

section \<open>Post-processing\<close>

text \<open>
  C6. \<open>postProcess\<close> returns the input without its report and with the same output;
  it calls the reporting collaborator once, with the report alone, when the error count
  or the warning count is truthy, and does not call it otherwise.
\<close>

theorem postProcess_spec:
  "fst (postProcess self log results) = post_result.truncate results
   \<and> output (fst (postProcess self log results)) = output results
   \<and> (count_truthy (errorCount (report results)) \<or> count_truthy (warningCount (report results)) \<longrightarrow>
        snd (postProcess self log results) = log @ [([report results], options self, config self)])
   \<and> (\<not> (count_truthy (errorCount (report results)) \<or> count_truthy (warningCount (report results))) \<longrightarrow>
        snd (postProcess self log results) = log)"
  by (simp add: postProcess_def outputResults_def Let_def post_result.truncate_def)

theorem postProcess_spec_witness:
  "snd (postProcess
     \<lparr>options = JObj [], config = JUndefined, testGenerator = JUndefined,
      targetExtension = JStr ''scss'', others = []\<rparr> []
     \<lparr>output = ''a { }'', report = \<lparr>errorCount = Some 1, warningCount = Some 0, messages = Some []\<rparr>\<rparr>)
   = [([\<lparr>errorCount = Some 1, warningCount = Some 0, messages = Some []\<rparr>], JObj [], JUndefined)]
   \<and> snd (postProcess
     \<lparr>options = JObj [], config = JUndefined, testGenerator = JUndefined,
      targetExtension = JStr ''scss'', others = []\<rparr> []
     \<lparr>output = ''a { }'', report = \<lparr>errorCount = Some 0, warningCount = None, messages = Some []\<rparr>\<rparr>)
   = []"
  using postProcess_spec[of "\<lparr>options = JObj [], config = JUndefined, testGenerator = JUndefined,
      targetExtension = JStr ''scss'', others = []\<rparr>" "[]"
     "\<lparr>output = ''a { }'', report = \<lparr>errorCount = Some 1, warningCount = Some 0, messages = Some []\<rparr>\<rparr>"]
   postProcess_spec[of "\<lparr>options = JObj [], config = JUndefined, testGenerator = JUndefined,
      targetExtension = JStr ''scss'', others = []\<rparr>" "[]"
     "\<lparr>output = ''a { }'', report = \<lparr>errorCount = Some 0, warningCount = None, messages = Some []\<rparr>\<rparr>"]
  by (simp add: count_truthy_def)

section \<open>Generated tests\<close>

text \<open>
  C5. As stated the claim fails: the header ends in \<open>should pass sass-lint\<close>, and for
  a report whose message list is present and empty the block is the header followed by
  two newlines.
\<close>

theorem testGenerator_counterexample:
  "take (length (claimed_header ''a.scss''))
     (testGenerator_factory (\<lambda>relativePath passed msgs. msgs) ''a.scss'' []
        \<lparr>errorCount = Some 1, warningCount = Some 0,
         messages = Some [\<lparr>line = 1, column = 2, message = ''m'', ruleId = ''r'', severity = 2\<rparr>]\<rparr>)
     \<noteq> claimed_header ''a.scss''
   \<and> testGenerator_factory (\<lambda>relativePath passed msgs. msgs) ''a.scss'' []
        \<lparr>errorCount = Some 0, warningCount = Some 0, messages = Some []\<rparr>
     = ''a.scss should pass sass-lint'' @ nl @ nl"
  by (simp add: testGenerator_factory_def claimed_header_def render_def)

text \<open>
  C5, amended. The generator hands its callback the path, the flag that holds exactly
  when the error count is absent or zero, and the block made of the header
  \<open>"{relativePath} should pass sass-lint"\<close>, followed, when the report has a message
  list, by two newlines and the messages' lines joined by newlines. The result does not
  depend on the second argument.
\<close>

theorem testGenerator_spec:
  "testGenerator_factory callback relativePath errors results =
     callback relativePath
       (errorCount results = None \<or> errorCount results = Some 0)
       (relativePath @ '' should pass sass-lint''
          @ (case messages results of
               None \<Rightarrow> []
             | Some ms \<Rightarrow> nl @ nl @ join nl (map claimed_line ms)))
   \<and> testGenerator_factory callback relativePath errors results
       = testGenerator_factory callback relativePath errors' results"
proof -
  have r: "renderLine = claimed_line"
    by (rule ext) (simp add: renderLine_def claimed_line_def)
  have p: "(\<not> count_truthy (errorCount results) \<or> number_length (errorCount results) = JNum 0)
            = (errorCount results = None \<or> errorCount results = Some 0)"
    by (simp add: count_truthy_def number_length_def split: option.splits)
  show ?thesis
    unfolding testGenerator_factory_def Let_def p render_def r
    by (simp split: option.splits)
qed

theorem testGenerator_spec_witness:
  "testGenerator_factory (\<lambda>relativePath passed msgs. (passed, msgs)) ''a.scss'' []
     \<lparr>errorCount = Some 1, warningCount = Some 0,
      messages = Some [\<lparr>line = 1, column = 2, message = ''m'', ruleId = ''r'', severity = 2\<rparr>]\<rparr>
   = (False, ''a.scss should pass sass-lint'' @ nl @ nl @ ''1:2 - m (r)'')"
  using testGenerator_spec[of "\<lambda>relativePath passed msgs. (passed, msgs)" "''a.scss''" "[]"
     "\<lparr>errorCount = Some 1, warningCount = Some 0,
      messages = Some [\<lparr>line = 1, column = 2, message = ''m'', ruleId = ''r'', severity = 2\<rparr>]\<rparr>"]
  by (simp add: claimed_line_def show_int_1_2)

section \<open>Construction\<close>

text \<open>
  C7. The configuration \<open>{ options: {}, testGenerator: 'bogus' }\<close> names no
  registered generator, and the constructor returns an instance without a generator: the
  loop over the keys first replaces \<open>this.options\<close> by the inner object and then reads
  \<open>testGenerator\<close> from it. With the keys in the other order the constructor raises.
\<close>

theorem constructor_ignores_unknown_generator:
  "ScssLinter (\<lambda>node. None) (JObj [])
     [(''options'', JObj []), (''testGenerator'', JStr ''bogus'')]
   = Inr \<lparr>options = JObj [], config = JUndefined, testGenerator = JUndefined,
          targetExtension = JStr ''scss'', others = []\<rparr>
   \<and> ScssLinter (\<lambda>node. None) (JObj [])
     [(''testGenerator'', JStr ''bogus''), (''options'', JObj [])]
   = Inl (ReferenceError ''quint is not defined'')"
  by (simp add: ScssLinter_def resolve_testGenerator_def set_property_def object_prototype_def
      object_prototype_functions_def test_generators_def exports_literal_def resolve_def
      module_scope_def)

lemma test_generators_raises: "test_generators = Inl (ReferenceError ''quint is not defined'')"
  by (simp add: test_generators_def exports_literal_def resolve_def module_scope_def)

text \<open>
  C9. The export statement has the keys \<open>quint\<close> and \<open>mocha\<close>; the identifier
  \<open>quint\<close> is bound nowhere, while \<open>qunit\<close> is bound to the QUnit generator; no
  key is \<open>qunit\<close>; and constructing a filter with the style \<open>qunit\<close> raises
  instead of yielding the QUnit generator.
\<close>

theorem registry_misspelled:
  "map fst exports_literal = [''quint'', ''mocha'']
   \<and> map_of exports_literal ''quint'' = Some ''quint''
   \<and> resolve ''quint'' = Inl (ReferenceError ''quint is not defined'')
   \<and> resolve ''qunit'' = Inr (JFun (Generator qunit))
   \<and> ''qunit'' \<notin> set (map fst exports_literal)
   \<and> test_generators = Inl (ReferenceError ''quint is not defined'')
   \<and> (typeof inputNode = ''object'' \<and> base inputNode = None \<longrightarrow>
        ScssLinter base inputNode [(''testGenerator'', JStr ''qunit'')]
          = Inl (ReferenceError ''quint is not defined''))"
  by (simp add: test_generators_raises exports_literal_def resolve_def module_scope_def
      ScssLinter_def resolve_testGenerator_def set_property_def)

theorem registry_misspelled_witness:
  "typeof (JObj []) = ''object'' \<and> (\<lambda>node. None :: error option) (JObj []) = None
   \<and> ScssLinter (\<lambda>node. None) (JObj []) [(''testGenerator'', JStr ''qunit'')]
          = Inl (ReferenceError ''quint is not defined'')"
  using registry_misspelled[of "JObj []" "\<lambda>node. None"] by simp

section \<open>The stored options of the command-line filter\<close>

text \<open>
  C8. Whatever the options were, after \<open>processString\<close> the stored options of the
  command-line filter are those without \<open>bundleExec\<close>. With
  \<open>{ bundleExec: true, config: '.scss-lint.yml' }\<close> they differ from the options at
  construction after one file, and the command for the next file lacks the
  \<open>bundle exec\<close> that the first command had.
\<close>

theorem processString_deletes_bundleExec:
  "cli_options (snd (processString_cli env self content relativePath))
     = filter (\<lambda>kv. fst kv \<noteq> ''bundleExec'') (cli_options self)
   \<and> cli_options (snd (processString_cli env
       \<lparr>cli_options = [(''bundleExec'', JBool True), (''config'', JStr ''.scss-lint.yml'')],
        cli_inputPath = ''in'', cli_disableTestGenerator = JUndefined, cli_errors = []\<rparr>
       ''a { }'' ''a.scss''))
     = [(''config'', JStr ''.scss-lint.yml'')]
   \<and> fst (buildCommand ''in/a.scss'' [(''bundleExec'', JBool True), (''config'', JStr ''.scss-lint.yml'')])
     = ''bundle exec scss-lint in/a.scss --config .scss-lint.yml''
   \<and> fst (buildCommand ''in/b.scss'' [(''config'', JStr ''.scss-lint.yml'')])
     = ''scss-lint in/b.scss --config .scss-lint.yml''"
  by (simp add: processString_cli_def buildCommand_def Let_def join_element_def split: prod.splits)

end
